theory Spec2Isabelle
  imports Complex_Main
begin

text \<open>
  The EHR insurance verification service of \<^verbatim>\<open>server.js\<close>: the payer lookup of
  \<^verbatim>\<open>InsuranceVerificationService\<close>, the fetches and extractions of \<^verbatim>\<open>FHIRHelper\<close>, and the routes
  for a patient, a coverage, a single verification and a batch of verifications, as
  functions on JavaScript values, followed by what holds of them.
\<close>

section \<open>JavaScript values\<close>

text \<open>
  \<^verbatim>\<open>server.js\<close> works on parsed JSON: the request body, the data of the remote responses
  and the objects it builds for \<^verbatim>\<open>res.json\<close>. A value is \<^verbatim>\<open>undefined\<close> or one of the JSON
  forms. An object is the list of its own properties in insertion order; a lookup takes
  the first binding of a key.
\<close>

datatype jv =
    JUndef
  | JNull
  | JBool bool
  | JNum real
  | JStr string
  | JArr "jv list"
  | JObj "(string \<times> jv) list"

text \<open>
  A thrown value. \<^verbatim>\<open>throw new Error(msg)\<close> is \<open>Error msg\<close>; a \<^verbatim>\<open>TypeError\<close> raised by the
  runtime carries the text V8 gives it (the wording of Node 16.9 and later). Only the
  texts of the errors the source throws itself matter below.
\<close>

datatype js_error = Error string | TypeError string

fun message :: "js_error \<Rightarrow> string" where
  "message (Error m) = m"
| "message (TypeError m) = m"

text \<open>Sequencing of statements that may throw: the first thrown value is the result.\<close>

definition and_then :: "js_error + 'a \<Rightarrow> ('a \<Rightarrow> js_error + 'b) \<Rightarrow> js_error + 'b" where
  "and_then r f = (case r of Inl e \<Rightarrow> Inl e | Inr v \<Rightarrow> f v)"

definition nullish :: "jv \<Rightarrow> bool" where
  "nullish v \<longleftrightarrow> v = JUndef \<or> v = JNull"

text \<open>\<^verbatim>\<open>!v\<close> is \<open>\<not> truthy v\<close>. JSON has no \<^verbatim>\<open>NaN\<close>.\<close>

fun truthy :: "jv \<Rightarrow> bool" where
  "truthy JUndef = False"
| "truthy JNull = False"
| "truthy (JBool b) = b"
| "truthy (JNum r) = (r \<noteq> 0)"
| "truthy (JStr s) = (s \<noteq> [])"
| "truthy (JArr xs) = True"
| "truthy (JObj kvs) = True"

text \<open>
  \<^verbatim>\<open>v.k\<close> for a value \<open>v\<close> that is neither \<^verbatim>\<open>null\<close> nor \<^verbatim>\<open>undefined\<close>, and a property
  name \<open>k\<close> written in the source (\<^verbatim>\<open>name\<close>, \<^verbatim>\<open>entry\<close>, \<^verbatim>\<open>length\<close>, ...): an own property of an
  object, the length of an array or string, \<^verbatim>\<open>undefined\<close> otherwise. None of the names
  the source reads this way is inherited from a prototype, \<^verbatim>\<open>length\<close> apart.
\<close>

fun member :: "jv \<Rightarrow> string \<Rightarrow> jv" where
  "member (JObj kvs) k = (case map_of kvs k of Some v \<Rightarrow> v | None \<Rightarrow> JUndef)"
| "member (JArr xs) k = (if k = ''length'' then JNum (real (length xs)) else JUndef)"
| "member (JStr s) k = (if k = ''length'' then JNum (real (length s)) else JUndef)"
| "member v k = JUndef"

text \<open>\<^verbatim>\<open>v[0]\<close> for a value that is neither \<^verbatim>\<open>null\<close> nor \<^verbatim>\<open>undefined\<close>.\<close>

fun element0 :: "jv \<Rightarrow> jv" where
  "element0 (JArr xs) = (case xs of [] \<Rightarrow> JUndef | x # _ \<Rightarrow> x)"
| "element0 (JStr s) = (case s of [] \<Rightarrow> JUndef | c # _ \<Rightarrow> JStr [c])"
| "element0 (JObj kvs) = (case map_of kvs ''0'' of Some v \<Rightarrow> v | None \<Rightarrow> JUndef)"
| "element0 v = JUndef"

definition cannot_read :: "jv \<Rightarrow> string \<Rightarrow> js_error" where
  "cannot_read v k =
     TypeError (''Cannot read properties of '' @ (if v = JNull then ''null'' else ''undefined'')
                @ '' (reading '' @ [CHR 0x27] @ k @ [CHR 0x27] @ '')'')"

text \<open>\<^verbatim>\<open>v.k\<close> and \<^verbatim>\<open>v[0]\<close>: reading a property of \<^verbatim>\<open>null\<close> or \<^verbatim>\<open>undefined\<close> throws.\<close>

definition get :: "jv \<Rightarrow> string \<Rightarrow> js_error + jv" where
  "get v k = (if nullish v then Inl (cannot_read v k) else Inr (member v k))"

definition get0 :: "jv \<Rightarrow> js_error + jv" where
  "get0 v = (if nullish v then Inl (cannot_read v ''0'') else Inr (element0 v))"

text \<open>Optional chaining, \<^verbatim>\<open>v?.k\<close> and \<^verbatim>\<open>v?.[0]\<close>.\<close>

definition opt :: "jv \<Rightarrow> string \<Rightarrow> jv" where
  "opt v k = (if nullish v then JUndef else member v k)"

definition opt0 :: "jv \<Rightarrow> jv" where
  "opt0 v = (if nullish v then JUndef else element0 v)"

text \<open>
  \<^verbatim>\<open>String(v)\<close>, as a template literal and a computed property key apply it: an array
  joins the texts of its elements, an object gives \<^verbatim>\<open>[object Object]\<close> through the
  inherited \<^verbatim>\<open>toString\<close>. An own property \<^verbatim>\<open>toString\<close> of a parsed object hides the inherited
  one and is no function, so the conversion throws. The text of a number is the
  runtime's, taken as the parameter \<open>ns\<close>.
\<close>

fun join_texts :: "(js_error + string) list \<Rightarrow> js_error + string" where
  "join_texts [] = Inr []"
| "join_texts [t] = t"
| "join_texts (t # u # ts) =
     and_then t (\<lambda>s. and_then (join_texts (u # ts)) (\<lambda>rest. Inr (s @ '','' @ rest)))"

fun to_string :: "(real \<Rightarrow> string) \<Rightarrow> jv \<Rightarrow> js_error + string" where
  "to_string ns JUndef = Inr ''undefined''"
| "to_string ns JNull = Inr ''null''"
| "to_string ns (JBool b) = Inr (if b then ''true'' else ''false'')"
| "to_string ns (JNum r) = Inr (ns r)"
| "to_string ns (JStr s) = Inr s"
| "to_string ns (JArr xs) =
     join_texts (map (\<lambda>x. if x = JNull \<or> x = JUndef then Inr [] else to_string ns x) xs)"
| "to_string ns (JObj kvs) =
     (if map_of kvs ''toString'' = None then Inr ''[object Object]''
      else Inl (TypeError ''Cannot convert object to primitive value''))"

section \<open>The environment of one request\<close>

text \<open>
  What \<^verbatim>\<open>axios.get\<close> gives: the promise resolves with a response, of which the source
  reads \<^verbatim>\<open>data\<close>, or rejects with an error, of which it reads \<^verbatim>\<open>message\<close> and
  \<^verbatim>\<open>response?.status\<close> (absent when no response arrived).
\<close>

record axios_error =
  err_message :: string
  response_status :: "nat option"

datatype axios_result = Resolved jv | Rejected axios_error

text \<open>
  Everything the code takes from outside while it serves one request: the remote server
  as a function of the URL, the value of \<^verbatim>\<open>Math.random()\<close>, the text of
  \<^verbatim>\<open>new Date().toISOString()\<close>, and the runtime's text of a number.
\<close>

record world =
  http_get :: "string \<Rightarrow> axios_result"
  random :: real
  now_iso :: string
  number_text :: "real \<Rightarrow> string"

definition FHIR_BASE_URL :: string where
  "FHIR_BASE_URL = ''https://launch.smarthealthit.org/v/r4/fhir''"

section \<open>InsuranceVerificationService\<close>

text \<open>The payer table of the constructor (lines 24 to 40).\<close>

definition mockPayers :: "(string \<times> jv) list" where
  "mockPayers =
    [(''BCBS001'', JObj [(''name'', JStr ''Blue Cross Blue Shield''), (''active'', JBool True),
                         (''verificationEndpoint'', JStr ''mock'')]),
     (''AETNA001'', JObj [(''name'', JStr ''Aetna''), (''active'', JBool True),
                          (''verificationEndpoint'', JStr ''mock'')]),
     (''UHC001'', JObj [(''name'', JStr ''United Healthcare''), (''active'', JBool True),
                        (''verificationEndpoint'', JStr ''mock'')])]"

text \<open>
  \<^verbatim>\<open>mockPayers\<close> is an object literal, so a lookup that finds no own property goes on to
  \<^verbatim>\<open>Object.prototype\<close>. Its properties are functions, and the accessor \<^verbatim>\<open>__proto__\<close> that
  gives \<^verbatim>\<open>Object.prototype\<close> itself; each is an object here, holding the one property
  the source reads from a payer, \<^verbatim>\<open>name\<close>.
\<close>

definition builtin :: "string \<Rightarrow> string \<times> jv" where
  "builtin f = (f, JObj [(''name'', JStr f)])"

definition object_prototype :: "(string \<times> jv) list" where
  "object_prototype =
    [(''constructor'', JObj [(''name'', JStr ''Object'')]),
     builtin ''__defineGetter__'', builtin ''__defineSetter__'', builtin ''hasOwnProperty'',
     builtin ''__lookupGetter__'', builtin ''__lookupSetter__'', builtin ''isPrototypeOf'',
     builtin ''propertyIsEnumerable'', builtin ''toString'', builtin ''valueOf'',
     (''__proto__'', JObj []),
     builtin ''toLocaleString'']"

text \<open>\<^verbatim>\<open>this.mockPayers[payerId]\<close>: the key is \<^verbatim>\<open>String(payerId)\<close>.\<close>

definition mockPayers_at :: "(real \<Rightarrow> string) \<Rightarrow> jv \<Rightarrow> js_error + jv" where
  "mockPayers_at ns payerId =
     and_then (to_string ns payerId) (\<lambda>key.
       case map_of mockPayers key of
         Some payer \<Rightarrow> Inr payer
       | None \<Rightarrow> (case map_of object_prototype key of Some f \<Rightarrow> Inr f | None \<Rightarrow> Inr JUndef))"

text \<open>\<^verbatim>\<open>coverageData.payor?.[0]?.identifier?.[0]?.value\<close>, given \<^verbatim>\<open>coverageData.payor\<close>.\<close>

definition payer_id_of :: "jv \<Rightarrow> jv" where
  "payer_id_of payor = opt (opt0 (opt (opt0 payor) ''identifier'')) ''value''"

definition benefits :: jv where
  "benefits =
     JArr [JObj [(''service'', JStr ''Office Visit''), (''coverage'', JStr ''Covered''),
                 (''copay'', JStr ''$25.00'')],
           JObj [(''service'', JStr ''Preventive Care''), (''coverage'', JStr ''Covered 100%''),
                 (''copay'', JStr ''$0.00'')]]"

definition payer_not_recognized :: jv where
  "payer_not_recognized =
     JObj [(''status'', JStr ''error''), (''message'', JStr ''Payer not recognized''),
           (''eligible'', JBool False)]"

text \<open>
  \<^verbatim>\<open>verifyEligibility\<close> (lines 44 to 83). The one-second delay has no effect on the value
  returned.
\<close>

definition verifyEligibility :: "world \<Rightarrow> jv \<Rightarrow> jv \<Rightarrow> js_error + jv" where
  "verifyEligibility w patientData coverageData =
     and_then (get coverageData ''payor'') (\<lambda>payor.
     let payerId = payer_id_of payor in
     and_then (mockPayers_at (number_text w) payerId) (\<lambda>payer.
       if \<not> truthy payer then Inr payer_not_recognized
       else and_then (get payer ''name'') (\<lambda>payerName.
         Inr (JObj [(''status'', JStr ''success''),
                    (''eligible'', JBool (random w > 0.2)),
                    (''payerName'', payerName),
                    (''effectiveDate'', JStr ''2024-01-01''),
                    (''terminationDate'', JStr ''2024-12-31''),
                    (''copay'', JStr ''$25.00''),
                    (''deductible'', JStr ''$1,500.00''),
                    (''deductibleMet'', JStr ''$450.00''),
                    (''benefits'', benefits),
                    (''verificationDate'', JStr (now_iso w))]))))"

section \<open>FHIRHelper\<close>

definition patient_not_found :: "string \<Rightarrow> string" where
  "patient_not_found id_text =
     ''Patient with ID '' @ [CHR 0x27] @ id_text @ [CHR 0x27]
       @ '' not found. Try searching for patients first.''"

text \<open>
  \<^verbatim>\<open>getPatient\<close> (lines 90 to 102): the result of the awaited promise. The \<^verbatim>\<open>try\<close> block holds the template
  literal of the URL too, so a conversion that throws ends in the \<^verbatim>\<open>catch\<close>, where the
  thrown value has no \<^verbatim>\<open>response\<close>. The two \<^verbatim>\<open>console.error\<close> lines write to the log only.
\<close>

definition getPatient :: "world \<Rightarrow> jv \<Rightarrow> js_error + jv" where
  "getPatient w patientId =
     (case to_string (number_text w) patientId of
        Inl thrown \<Rightarrow> Inl (Error ''Failed to fetch patient data'')
      | Inr id_text \<Rightarrow>
          (case http_get w (FHIR_BASE_URL @ ''/Patient/'' @ id_text) of
             Resolved data \<Rightarrow> Inr data
           | Rejected error \<Rightarrow>
               if response_status error = Some 404
               then Inl (Error (patient_not_found id_text))
               else Inl (Error ''Failed to fetch patient data'')))"

text \<open>
  \<^verbatim>\<open>getCoverage\<close> (lines 104 to 112) never throws: whatever the \<^verbatim>\<open>try\<close> block throws gives
  \<^verbatim>\<open>{ entry: [] }\<close>.
\<close>

definition getCoverage :: "world \<Rightarrow> jv \<Rightarrow> jv" where
  "getCoverage w patientId =
     (case to_string (number_text w) patientId of
        Inl thrown \<Rightarrow> JObj [(''entry'', JArr [])]
      | Inr id_text \<Rightarrow>
          (case http_get w (FHIR_BASE_URL @ ''/Coverage?patient='' @ id_text) of
             Resolved data \<Rightarrow> data
           | Rejected error \<Rightarrow> JObj [(''entry'', JArr [])]))"

text \<open>The callback \<^verbatim>\<open>t => t.system === 'phone'\<close> run by \<^verbatim>\<open>Array.prototype.find\<close>.\<close>

fun find_phone :: "jv list \<Rightarrow> js_error + jv" where
  "find_phone [] = Inr JUndef"
| "find_phone (t # ts) =
     and_then (get t ''system'') (\<lambda>system.
       if system = JStr ''phone'' then Inr t else find_phone ts)"

text \<open>
  \<^verbatim>\<open>patient.telecom?.find(...)\<close>, given \<^verbatim>\<open>patient.telecom\<close>: \<^verbatim>\<open>undefined\<close> when it is
  \<^verbatim>\<open>null\<close> or \<^verbatim>\<open>undefined\<close>; only an array has a \<^verbatim>\<open>find\<close> to call.
\<close>

definition telecom_find :: "jv \<Rightarrow> js_error + jv" where
  "telecom_find telecom =
     (if nullish telecom then Inr JUndef
      else case telecom of
             JArr ts \<Rightarrow> find_phone ts
           | _ \<Rightarrow> Inl (TypeError ''patient.telecom?.find is not a function''))"

text \<open>\<^verbatim>\<open>v || ''\<close>.\<close>

definition or_empty :: "jv \<Rightarrow> jv" where
  "or_empty v = (if truthy v then v else JStr [])"

text \<open>\<^verbatim>\<open>extractPatientInfo\<close> (lines 114 to 125).\<close>

definition extractPatientInfo :: "jv \<Rightarrow> js_error + jv" where
  "extractPatientInfo patient =
     and_then (get patient ''name'') (\<lambda>names.
     let name = opt0 names in
     and_then (get patient ''id'') (\<lambda>patient_id.
     and_then (get patient ''birthDate'') (\<lambda>birthDate.
     and_then (get patient ''gender'') (\<lambda>gender.
     and_then (get patient ''telecom'') (\<lambda>telecom.
     and_then (telecom_find telecom) (\<lambda>found.
     and_then (get patient ''address'') (\<lambda>address.
       Inr (JObj [(''id'', patient_id),
                  (''firstName'', or_empty (opt0 (opt name ''given''))),
                  (''lastName'', or_empty (opt name ''family'')),
                  (''birthDate'', birthDate),
                  (''gender'', gender),
                  (''phone'', opt found ''value''),
                  (''address'', opt0 address)]))))))))"

text \<open>\<^verbatim>\<open>extractCoverageInfo\<close> (lines 127 to 140).\<close>

definition extractCoverageInfo :: "jv \<Rightarrow> js_error + jv" where
  "extractCoverageInfo coverage =
     and_then (get coverage ''entry'') (\<lambda>entry.
       if \<not> truthy entry \<or> member entry ''length'' = JNum 0 then Inr JNull
       else
         and_then (get0 entry) (\<lambda>entry0.
         and_then (get entry0 ''resource'') (\<lambda>coverageResource.
         and_then (get coverageResource ''id'') (\<lambda>coverage_id.
         and_then (get coverageResource ''status'') (\<lambda>status.
         and_then (get coverageResource ''subscriberId'') (\<lambda>subscriberId.
         and_then (get coverageResource ''payor'') (\<lambda>payor.
         and_then (get coverageResource ''period'') (\<lambda>period.
           Inr (JObj [(''id'', coverage_id),
                      (''status'', status),
                      (''subscriberId'', subscriberId),
                      (''payor'', payor),
                      (''period'', period)])))))))))"

section \<open>Routes\<close>

text \<open>
  What a handler sends: the status (200 unless \<^verbatim>\<open>res.status\<close> sets it) and the value given
  to \<^verbatim>\<open>res.json\<close>. Beside it, a handler's outcome lists the argument pairs of the calls
  of \<^verbatim>\<open>verifyEligibility\<close> it made, in order.
\<close>

record reply =
  http_status :: nat
  json :: jv

record outcome =
  sent :: reply
  stub_calls :: "(jv \<times> jv) list"

definition failed :: "nat \<Rightarrow> string \<Rightarrow> reply" where
  "failed code msg =
     \<lparr>http_status = code, json = JObj [(''success'', JBool False), (''error'', JStr msg)]\<rparr>"

definition ok :: "jv \<Rightarrow> reply" where
  "ok v = \<lparr>http_status = 200, json = v\<rparr>"

text \<open>\<^verbatim>\<open>GET /api/patient/:id\<close> (lines 187 to 203); a route parameter is a string.\<close>

definition patient_route :: "world \<Rightarrow> string \<Rightarrow> reply" where
  "patient_route w patientId =
     (case and_then (getPatient w (JStr patientId)) extractPatientInfo of
        Inr patientInfo \<Rightarrow> ok (JObj [(''success'', JBool True), (''patient'', patientInfo)])
      | Inl error \<Rightarrow> failed 404 (message error))"

text \<open>\<^verbatim>\<open>GET /api/coverage/:patientId\<close> (lines 206 to 222).\<close>

definition coverage_route :: "world \<Rightarrow> string \<Rightarrow> reply" where
  "coverage_route w patientId =
     (case extractCoverageInfo (getCoverage w (JStr patientId)) of
        Inr coverageInfo \<Rightarrow> ok (JObj [(''success'', JBool True), (''coverage'', coverageInfo)])
      | Inl error \<Rightarrow> failed 500 (message error))"

text \<open>\<^verbatim>\<open>const { name } = v\<close>, which throws on \<^verbatim>\<open>null\<close> and \<^verbatim>\<open>undefined\<close>.\<close>

definition destructure :: "jv \<Rightarrow> string \<Rightarrow> js_error + jv" where
  "destructure v k =
     (if nullish v
      then Inl (TypeError (''Cannot destructure property '' @ [CHR 0x27] @ k @ [CHR 0x27]
                           @ '' of '' @ [CHR 0x27] @ ''req.body'' @ [CHR 0x27] @ '' as it is ''
                           @ (if v = JNull then ''null'' else ''undefined'') @ ''.''))
      else Inr (member v k))"

text \<open>
  The steps the two verification routes share up to the test of \<^verbatim>\<open>coverageInfo\<close>: both
  fetches, then both extractions.
\<close>

definition fetch_both :: "world \<Rightarrow> jv \<Rightarrow> js_error + jv \<times> jv" where
  "fetch_both w patientId =
     and_then (getPatient w patientId) (\<lambda>patient.
     let coverage = getCoverage w patientId in
     and_then (extractPatientInfo patient) (\<lambda>patientInfo.
     and_then (extractCoverageInfo coverage) (\<lambda>coverageInfo.
       Inr (patientInfo, coverageInfo))))"

text \<open>\<^verbatim>\<open>POST /api/verify-insurance\<close> (lines 225 to 270), on the parsed request body.\<close>

definition verify_insurance :: "world \<Rightarrow> jv \<Rightarrow> outcome" where
  "verify_insurance w req_body =
     (case destructure req_body ''patientId'' of
        Inl error \<Rightarrow> \<lparr>sent = failed 500 (message error), stub_calls = []\<rparr>
      | Inr patientId \<Rightarrow>
          if \<not> truthy patientId
          then \<lparr>sent = failed 400 ''Patient ID is required'', stub_calls = []\<rparr>
          else
            (case fetch_both w patientId of
               Inl error \<Rightarrow> \<lparr>sent = failed 500 (message error), stub_calls = []\<rparr>
             | Inr (patientInfo, coverageInfo) \<Rightarrow>
                 if \<not> truthy coverageInfo
                 then \<lparr>sent = ok (JObj [(''success'', JBool True),
                                         (''verification'',
                                            JObj [(''status'', JStr ''no_coverage''),
                                                  (''message'',
                                                     JStr ''No insurance coverage found for patient'')]),
                                         (''patient'', patientInfo)]),
                       stub_calls = []\<rparr>
                 else
                   (case verifyEligibility w patientInfo coverageInfo of
                      Inl error \<Rightarrow> \<lparr>sent = failed 500 (message error),
                                     stub_calls = [(patientInfo, coverageInfo)]\<rparr>
                    | Inr verification \<Rightarrow>
                        \<lparr>sent = ok (JObj [(''success'', JBool True),
                                          (''patient'', patientInfo),
                                          (''coverage'', coverageInfo),
                                          (''verification'', verification)]),
                         stub_calls = [(patientInfo, coverageInfo)]\<rparr>)))"

text \<open>
  One turn of the loop of \<^verbatim>\<open>POST /api/verify-batch\<close> (lines 287 to 310): the entry pushed
  for \<open>patientId\<close>, and the calls of \<^verbatim>\<open>verifyEligibility\<close> made for it. The \<^verbatim>\<open>catch\<close> inside the
  loop takes every thrown value.
\<close>

definition batch_failure :: "jv \<Rightarrow> js_error \<Rightarrow> jv" where
  "batch_failure patientId error =
     JObj [(''patientId'', patientId), (''error'', JStr (message error))]"

definition batch_success :: "jv \<Rightarrow> jv \<Rightarrow> jv \<Rightarrow> jv \<Rightarrow> jv" where
  "batch_success patientId patientInfo coverageInfo verification =
     JObj [(''patientId'', patientId), (''patient'', patientInfo), (''coverage'', coverageInfo),
           (''verification'',
              if truthy verification then verification
              else JObj [(''status'', JStr ''no_coverage'')])]"

definition batch_item :: "world \<Rightarrow> jv \<Rightarrow> jv \<times> (jv \<times> jv) list" where
  "batch_item w patientId =
     (case fetch_both w patientId of
        Inl error \<Rightarrow> (batch_failure patientId error, [])
      | Inr (patientInfo, coverageInfo) \<Rightarrow>
          if truthy coverageInfo
          then (case verifyEligibility w patientInfo coverageInfo of
                  Inl error \<Rightarrow> (batch_failure patientId error, [(patientInfo, coverageInfo)])
                | Inr verification \<Rightarrow>
                    (batch_success patientId patientInfo coverageInfo verification,
                     [(patientInfo, coverageInfo)]))
          else (batch_success patientId patientInfo coverageInfo JNull, []))"

text \<open>
  The \<^verbatim>\<open>for ... of\<close> loop. \<open>ws i\<close> is the environment the turn for the element at index \<open>i\<close>
  runs in (the remote answers, the random draw and the clock reading of that turn);
  \<open>results\<close> and \<open>calls\<close> are what the turns before have pushed.
\<close>

fun batch_loop ::
  "(nat \<Rightarrow> world) \<Rightarrow> nat \<Rightarrow> jv list \<Rightarrow> jv list \<times> (jv \<times> jv) list \<Rightarrow> jv list \<times> (jv \<times> jv) list"
where
  "batch_loop ws i [] acc = acc"
| "batch_loop ws i (patientId # rest) (results, calls) =
     (case batch_item (ws i) patientId of
        (entry, made) \<Rightarrow> batch_loop ws (Suc i) rest (results @ [entry], calls @ made))"

text \<open>\<^verbatim>\<open>POST /api/verify-batch\<close> (lines 273 to 324), on the parsed request body.\<close>

definition verify_batch :: "(nat \<Rightarrow> world) \<Rightarrow> jv \<Rightarrow> outcome" where
  "verify_batch ws req_body =
     (case destructure req_body ''patientIds'' of
        Inl error \<Rightarrow> \<lparr>sent = failed 500 (message error), stub_calls = []\<rparr>
      | Inr patientIds \<Rightarrow>
          (case patientIds of
             JArr (p # ps) \<Rightarrow>
               (case batch_loop ws 0 (p # ps) ([], []) of
                  (results, calls) \<Rightarrow>
                    \<lparr>sent = ok (JObj [(''success'', JBool True), (''results'', JArr results)]),
                     stub_calls = calls\<rparr>)
           | _ \<Rightarrow> \<lparr>sent = failed 400 ''Array of patient IDs is required'', stub_calls = []\<rparr>))"

section \<open>Shapes of the data\<close>

text \<open>
  The two shapes of an entry of the batch result, told apart by the property names.
\<close>

definition is_success_entry :: "jv \<Rightarrow> bool" where
  "is_success_entry e \<longleftrightarrow>
     (case e of
        JObj kvs \<Rightarrow> map fst kvs = [''patientId'', ''patient'', ''coverage'', ''verification'']
      | _ \<Rightarrow> False)"

definition is_failure_entry :: "jv \<Rightarrow> bool" where
  "is_failure_entry e \<longleftrightarrow>
     (case e of JObj kvs \<Rightarrow> map fst kvs = [''patientId'', ''error''] | _ \<Rightarrow> False)"

text \<open>
  A coverage search bundle: a value other than \<^verbatim>\<open>null\<close> whose \<^verbatim>\<open>entry\<close> is absent, \<^verbatim>\<open>null\<close> or
  an array, the first element of which, if there is one, holds a \<^verbatim>\<open>resource\<close>. Nothing
  is asked of the entries behind the first. \<open>entry_list\<close> is the entry list, empty when
  \<^verbatim>\<open>entry\<close> is absent.
\<close>

definition has_resource :: "jv \<Rightarrow> bool" where
  "has_resource e \<longleftrightarrow> \<not> nullish e \<and> \<not> nullish (member e ''resource'')"

definition search_bundle :: "jv \<Rightarrow> bool" where
  "search_bundle b \<longleftrightarrow>
     \<not> nullish b \<and>
     (case member b ''entry'' of
        JUndef \<Rightarrow> True
      | JNull \<Rightarrow> True
      | JArr es \<Rightarrow> (case es of [] \<Rightarrow> True | e # _ \<Rightarrow> has_resource e)
      | _ \<Rightarrow> False)"

definition entry_list :: "jv \<Rightarrow> jv list" where
  "entry_list b = (case member b ''entry'' of JArr es \<Rightarrow> es | _ \<Rightarrow> [])"

text \<open>
  A raw patient resource: a value other than \<^verbatim>\<open>null\<close> whose \<^verbatim>\<open>telecom\<close> is absent, \<^verbatim>\<open>null\<close> or
  an array of contact points, none of them \<^verbatim>\<open>null\<close>. Every other property may be missing
  or have any form. \<open>telecom_list\<close> is the list of contact points, empty when \<^verbatim>\<open>telecom\<close>
  is absent.
\<close>

definition patient_resource :: "jv \<Rightarrow> bool" where
  "patient_resource p \<longleftrightarrow>
     \<not> nullish p \<and>
     (case member p ''telecom'' of
        JUndef \<Rightarrow> True
      | JNull \<Rightarrow> True
      | JArr ts \<Rightarrow> list_all (\<lambda>t. \<not> nullish t) ts
      | _ \<Rightarrow> False)"

definition telecom_list :: "jv \<Rightarrow> jv list" where
  "telecom_list p = (case member p ''telecom'' of JArr ts \<Rightarrow> ts | _ \<Rightarrow> [])"

section \<open>A sample gateway\<close>

text \<open>
  A remote server that knows two patients: \<^verbatim>\<open>p1\<close>, with a name, two phone numbers and two
  coverages, and \<^verbatim>\<open>p2\<close>, with an identifier only and no coverage. The request for patient
  \<^verbatim>\<open>p3\<close> breaks off without a response; every other request is answered 404.
\<close>

definition not_found_error :: axios_error where
  "not_found_error =
     \<lparr>err_message = ''Request failed with status code 404'', response_status = Some 404\<rparr>"

definition network_error :: axios_error where
  "network_error = \<lparr>err_message = ''connect ECONNREFUSED'', response_status = None\<rparr>"

definition patient_p1 :: jv where
  "patient_p1 =
     JObj [(''resourceType'', JStr ''Patient''), (''id'', JStr ''p1''),
           (''name'', JArr [JObj [(''family'', JStr ''Doe''), (''given'', JArr [JStr ''John''])]]),
           (''gender'', JStr ''male''), (''birthDate'', JStr ''1990-01-01''),
           (''telecom'',
              JArr [JObj [(''system'', JStr ''email''), (''value'', JStr ''jd@example.org'')],
                    JObj [(''system'', JStr ''phone''), (''value'', JStr ''555-0100'')],
                    JObj [(''system'', JStr ''phone''), (''value'', JStr ''555-0199'')]]),
           (''address'', JArr [JObj [(''city'', JStr ''Boston'')], JObj [(''city'', JStr ''Salem'')]])]"

definition coverage_of :: "string \<Rightarrow> string \<Rightarrow> jv" where
  "coverage_of cid payer =
     JObj [(''resourceType'', JStr ''Coverage''), (''id'', JStr cid), (''status'', JStr ''active''),
           (''subscriberId'', JStr ''12345''),
           (''payor'', JArr [JObj [(''identifier'', JArr [JObj [(''value'', JStr payer)]])]]),
           (''period'', JObj [(''start'', JStr ''2024-01-01'')])]"

text \<open>The record \<^verbatim>\<open>extractCoverageInfo\<close> makes of \<open>coverage_of cid payer\<close>.\<close>

definition coverage_record :: "string \<Rightarrow> string \<Rightarrow> jv" where
  "coverage_record cid payer =
     JObj [(''id'', JStr cid), (''status'', JStr ''active''), (''subscriberId'', JStr ''12345''),
           (''payor'', JArr [JObj [(''identifier'', JArr [JObj [(''value'', JStr payer)]])]]),
           (''period'', JObj [(''start'', JStr ''2024-01-01'')])]"

definition bundle_p1 :: jv where
  "bundle_p1 =
     JObj [(''resourceType'', JStr ''Bundle''),
           (''entry'', JArr [JObj [(''resource'', coverage_of ''c1'' ''BCBS001'')],
                             JObj [(''resource'', coverage_of ''c2'' ''AETNA001'')]])]"

definition demo_gateway :: "string \<Rightarrow> axios_result" where
  "demo_gateway url =
     (if url = FHIR_BASE_URL @ ''/Patient/p1'' then Resolved patient_p1
      else if url = FHIR_BASE_URL @ ''/Coverage?patient=p1'' then Resolved bundle_p1
      else if url = FHIR_BASE_URL @ ''/Patient/p2'' then Resolved (JObj [(''id'', JStr ''p2'')])
      else if url = FHIR_BASE_URL @ ''/Patient/p3'' then Rejected network_error
      else Rejected not_found_error)"

definition demo_world :: world where
  "demo_world = \<lparr>http_get = demo_gateway, random = 1 / 2,
                  now_iso = ''2024-06-01T12:00:00.000Z'', number_text = (\<lambda>r. ''0'')\<rparr>"

definition demo_worlds :: "nat \<Rightarrow> world" where
  "demo_worlds i = demo_world\<lparr>random := (if i = 2 then 1 / 10 else 1 / 2)\<rparr>"

definition record_p2 :: jv where
  "record_p2 =
     JObj [(''id'', JStr ''p2''), (''firstName'', JStr []), (''lastName'', JStr []),
           (''birthDate'', JUndef), (''gender'', JUndef), (''phone'', JUndef),
           (''address'', JUndef)]"

section \<open>Resource Normalizer\<close>

lemma find_phone_find:
  "list_all (\<lambda>t. \<not> nullish t) ts \<Longrightarrow>
   find_phone ts =
     Inr (case List.find (\<lambda>t. member t ''system'' = JStr ''phone'') ts of
            Some t \<Rightarrow> t | None \<Rightarrow> JUndef)"
  by (induction ts) (simp_all add: and_then_def get_def)

lemma telecom_find_ok:
  "patient_resource p \<Longrightarrow>
   telecom_find (member p ''telecom'') =
     Inr (case List.find (\<lambda>t. member t ''system'' = JStr ''phone'') (telecom_list p) of
            Some t \<Rightarrow> t | None \<Rightarrow> JUndef)"
  by (auto simp: patient_resource_def telecom_find_def telecom_list_def nullish_def find_phone_find
           split: jv.splits)

text \<open>
  Claim C9. \<^verbatim>\<open>extractPatientInfo\<close> does not fail on a raw patient resource, whichever of its
  optional properties are missing. The record it returns has the first given name and the
  family name of the first name entry, each replaced by the empty string when it is
  missing or falsy; as phone the \<^verbatim>\<open>value\<close> of the first contact point whose \<^verbatim>\<open>system\<close> is
  \<^verbatim>\<open>phone\<close>, and \<^verbatim>\<open>undefined\<close> when there is none; as address the first address as it is.
\<close>

theorem extractPatientInfo_total:
  assumes "patient_resource p"
  shows "extractPatientInfo p =
     Inr (JObj [(''id'', member p ''id''),
                (''firstName'',
                   (let given0 = opt0 (opt (opt0 (member p ''name'')) ''given'')
                    in if truthy given0 then given0 else JStr [])),
                (''lastName'',
                   (let family = opt (opt0 (member p ''name'')) ''family''
                    in if truthy family then family else JStr [])),
                (''birthDate'', member p ''birthDate''),
                (''gender'', member p ''gender''),
                (''phone'',
                   (case List.find (\<lambda>t. member t ''system'' = JStr ''phone'') (telecom_list p) of
                      Some t \<Rightarrow> member t ''value''
                    | None \<Rightarrow> JUndef)),
                (''address'', opt0 (member p ''address''))])"
proof -
  let ?found = "List.find (\<lambda>t. member t ''system'' = JStr ''phone'') (telecom_list p)"
  have nn: "\<not> nullish p"
    using assms by (simp add: patient_resource_def)
  have phone: "opt (case ?found of Some t \<Rightarrow> t | None \<Rightarrow> JUndef) ''value'' =
               (case ?found of Some t \<Rightarrow> member t ''value'' | None \<Rightarrow> JUndef)"
  proof (cases ?found)
    case None
    then show ?thesis by (simp add: opt_def nullish_def)
  next
    case (Some t)
    then have "member t ''system'' = JStr ''phone''"
      by (auto simp: find_Some_iff)
    then have "\<not> nullish t"
      by (auto simp: nullish_def)
    with Some show ?thesis by (simp add: opt_def)
  qed
  show ?thesis
    using nn telecom_find_ok[OF assms] phone
    by (simp add: extractPatientInfo_def and_then_def get_def or_empty_def Let_def)
qed

text \<open>The sample patient, and a patient with an identifier and nothing else.\<close>

theorem extractPatientInfo_total_witness:
  "patient_resource patient_p1
   \<and> extractPatientInfo patient_p1 =
       Inr (JObj [(''id'', JStr ''p1''), (''firstName'', JStr ''John''), (''lastName'', JStr ''Doe''),
                  (''birthDate'', JStr ''1990-01-01''), (''gender'', JStr ''male''),
                  (''phone'', JStr ''555-0100''),
                  (''address'', JObj [(''city'', JStr ''Boston'')])])
   \<and> patient_resource (JObj [(''id'', JStr ''p2'')])
   \<and> extractPatientInfo (JObj [(''id'', JStr ''p2'')]) = Inr record_p2"
proof -
  have a: "patient_resource patient_p1"
    by (simp add: patient_resource_def patient_p1_def nullish_def)
  have b: "patient_resource (JObj [(''id'', JStr ''p2'')])"
    by (simp add: patient_resource_def nullish_def)
  have "extractPatientInfo patient_p1 =
       Inr (JObj [(''id'', JStr ''p1''), (''firstName'', JStr ''John''), (''lastName'', JStr ''Doe''),
                  (''birthDate'', JStr ''1990-01-01''), (''gender'', JStr ''male''),
                  (''phone'', JStr ''555-0100''),
                  (''address'', JObj [(''city'', JStr ''Boston'')])])"
    using extractPatientInfo_total[OF a]
    by (simp add: patient_p1_def telecom_list_def opt_def opt0_def nullish_def)
  moreover have "extractPatientInfo (JObj [(''id'', JStr ''p2'')]) = Inr record_p2"
    using extractPatientInfo_total[OF b]
    by (simp add: telecom_list_def opt_def opt0_def nullish_def record_p2_def)
  ultimately show ?thesis
    using a b by simp
qed

text \<open>
  Outside that shape the extraction can throw: the callback of \<^verbatim>\<open>find\<close> reads \<^verbatim>\<open>t.system\<close>
  without optional chaining.
\<close>

lemma extractPatientInfo_null_contact_point:
  "extractPatientInfo (JObj [(''id'', JStr ''p9''), (''telecom'', JArr [JNull])]) =
     Inl (cannot_read JNull ''system'')"
  by (simp add: extractPatientInfo_def and_then_def get_def nullish_def telecom_find_def)

text \<open>
  Claim C8. On a coverage search bundle \<^verbatim>\<open>extractCoverageInfo\<close> returns \<^verbatim>\<open>null\<close> exactly when
  the entry list is absent or empty. Otherwise it returns the record of the \<^verbatim>\<open>id\<close>,
  \<^verbatim>\<open>status\<close>, \<^verbatim>\<open>subscriberId\<close>, \<^verbatim>\<open>payor\<close> and \<^verbatim>\<open>period\<close> of the resource of the first entry, each
  as it is; the entries behind the first have no part in it.
\<close>

theorem extractCoverageInfo_first_entry:
  assumes "search_bundle b"
  shows "(extractCoverageInfo b = Inr JNull \<longleftrightarrow> entry_list b = []) \<and>
         (\<forall>e rest. entry_list b = e # rest \<longrightarrow>
            extractCoverageInfo b =
              Inr (JObj [(''id'', member (member e ''resource'') ''id''),
                         (''status'', member (member e ''resource'') ''status''),
                         (''subscriberId'', member (member e ''resource'') ''subscriberId''),
                         (''payor'', member (member e ''resource'') ''payor''),
                         (''period'', member (member e ''resource'') ''period'')]))"
  using assms
  by (auto simp: search_bundle_def entry_list_def extractCoverageInfo_def and_then_def get_def
                 get0_def has_resource_def nullish_def
           split: jv.splits list.splits)

text \<open>The sample bundle of two entries, and a bundle with an empty entry list.\<close>

theorem extractCoverageInfo_first_entry_witness:
  "search_bundle bundle_p1
   \<and> entry_list bundle_p1 = [JObj [(''resource'', coverage_of ''c1'' ''BCBS001'')],
                              JObj [(''resource'', coverage_of ''c2'' ''AETNA001'')]]
   \<and> extractCoverageInfo bundle_p1 =
       Inr (coverage_record ''c1'' ''BCBS001'')
   \<and> search_bundle (JObj [(''entry'', JArr [])])
   \<and> entry_list (JObj [(''entry'', JArr [])]) = []
   \<and> extractCoverageInfo (JObj [(''entry'', JArr [])]) = Inr JNull"
proof -
  have a: "search_bundle bundle_p1"
    by (simp add: search_bundle_def bundle_p1_def has_resource_def nullish_def coverage_of_def)
  have b: "entry_list bundle_p1 = [JObj [(''resource'', coverage_of ''c1'' ''BCBS001'')],
                                   JObj [(''resource'', coverage_of ''c2'' ''AETNA001'')]]"
    by (simp add: entry_list_def bundle_p1_def)
  have c: "search_bundle (JObj [(''entry'', JArr [])])"
    by (simp add: search_bundle_def nullish_def)
  have d: "entry_list (JObj [(''entry'', JArr [])]) = []"
    by (simp add: entry_list_def)
  have "extractCoverageInfo bundle_p1 =
       Inr (coverage_record ''c1'' ''BCBS001'')"
    using extractCoverageInfo_first_entry[OF a] b by (simp add: coverage_of_def coverage_record_def)
  moreover have "extractCoverageInfo (JObj [(''entry'', JArr [])]) = Inr JNull"
    using extractCoverageInfo_first_entry[OF c] d by simp
  ultimately show ?thesis
    using a b c d by simp
qed

text \<open>An entry without a resource is outside the shape, and the extraction throws.\<close>

lemma extractCoverageInfo_entry_without_resource:
  "extractCoverageInfo (JObj [(''entry'', JArr [JObj [(''fullUrl'', JStr ''urn:uuid:1'')]])]) =
     Inl (cannot_read JUndef ''id'')"
  by (simp add: extractCoverageInfo_def and_then_def get_def get0_def nullish_def)

section \<open>Eligibility Stub\<close>

text \<open>
  Claim C7. For a coverage record whose payer identifier is one of the three keys of the
  payer table, \<^verbatim>\<open>verifyEligibility\<close> returns a report with status \<^verbatim>\<open>success\<close>, the name the
  table gives for the key as \<^verbatim>\<open>payerName\<close>, and the two fixed benefit lines, whatever the
  random draw and the clock are.
\<close>

theorem verifyEligibility_known_payer:
  assumes "\<not> nullish coverageData"
    and "payer_id_of (member coverageData ''payor'') = JStr key"
    and "key \<in> {''BCBS001'', ''AETNA001'', ''UHC001''}"
  shows "\<exists>payer. map_of mockPayers key = Some payer
         \<and> verifyEligibility w patientData coverageData =
             Inr (JObj [(''status'', JStr ''success''),
                        (''eligible'', JBool (random w > 0.2)),
                        (''payerName'', member payer ''name''),
                        (''effectiveDate'', JStr ''2024-01-01''),
                        (''terminationDate'', JStr ''2024-12-31''),
                        (''copay'', JStr ''$25.00''),
                        (''deductible'', JStr ''$1,500.00''),
                        (''deductibleMet'', JStr ''$450.00''),
                        (''benefits'',
                           JArr [JObj [(''service'', JStr ''Office Visit''),
                                       (''coverage'', JStr ''Covered''),
                                       (''copay'', JStr ''$25.00'')],
                                 JObj [(''service'', JStr ''Preventive Care''),
                                       (''coverage'', JStr ''Covered 100%''),
                                       (''copay'', JStr ''$0.00'')]]),
                        (''verificationDate'', JStr (now_iso w))])
         \<and> member payer ''name'' =
             JStr (if key = ''BCBS001'' then ''Blue Cross Blue Shield''
                   else if key = ''AETNA001'' then ''Aetna'' else ''United Healthcare'')"
proof -
  consider "key = ''BCBS001''" | "key = ''AETNA001''" | "key = ''UHC001''"
    using assms(3) by auto
  then show ?thesis
  proof cases
    case 1
    with assms(1,2) show ?thesis
      by (simp add: verifyEligibility_def and_then_def get_def mockPayers_at_def mockPayers_def
                    benefits_def nullish_def Let_def)
  next
    case 2
    with assms(1,2) show ?thesis
      by (simp add: verifyEligibility_def and_then_def get_def mockPayers_at_def mockPayers_def
                    benefits_def nullish_def Let_def)
  next
    case 3
    with assms(1,2) show ?thesis
      by (simp add: verifyEligibility_def and_then_def get_def mockPayers_at_def mockPayers_def
                    benefits_def nullish_def Let_def)
  qed
qed

theorem verifyEligibility_known_payer_witness:
  "\<not> nullish (coverage_record ''c1'' ''BCBS001'')
   \<and> payer_id_of (member (coverage_record ''c1'' ''BCBS001'') ''payor'') = JStr ''BCBS001''
   \<and> ''BCBS001'' \<in> {''BCBS001'', ''AETNA001'', ''UHC001''}
   \<and> (\<exists>report. verifyEligibility demo_world record_p2 (coverage_record ''c1'' ''BCBS001'') = Inr report
         \<and> member report ''status'' = JStr ''success''
         \<and> member report ''payerName'' = JStr ''Blue Cross Blue Shield''
         \<and> (\<exists>line1 line2. member report ''benefits'' = JArr [line1, line2]))"
proof -
  have a: "\<not> nullish (coverage_record ''c1'' ''BCBS001'')"
    by (simp add: coverage_record_def nullish_def)
  have b: "payer_id_of (member (coverage_record ''c1'' ''BCBS001'') ''payor'') = JStr ''BCBS001''"
    by (simp add: coverage_record_def payer_id_of_def opt_def opt0_def nullish_def)
  have c: "''BCBS001'' \<in> {''BCBS001'', ''AETNA001'', ''UHC001''}"
    by simp
  from verifyEligibility_known_payer[OF a b c, of demo_world record_p2]
  obtain payer where
    "verifyEligibility demo_world record_p2 (coverage_record ''c1'' ''BCBS001'') =
       Inr (JObj [(''status'', JStr ''success''),
                  (''eligible'', JBool (random demo_world > 0.2)),
                  (''payerName'', member payer ''name''),
                  (''effectiveDate'', JStr ''2024-01-01''),
                  (''terminationDate'', JStr ''2024-12-31''),
                  (''copay'', JStr ''$25.00''),
                  (''deductible'', JStr ''$1,500.00''),
                  (''deductibleMet'', JStr ''$450.00''),
                  (''benefits'',
                     JArr [JObj [(''service'', JStr ''Office Visit''),
                                 (''coverage'', JStr ''Covered''),
                                 (''copay'', JStr ''$25.00'')],
                           JObj [(''service'', JStr ''Preventive Care''),
                                 (''coverage'', JStr ''Covered 100%''),
                                 (''copay'', JStr ''$0.00'')]]),
                  (''verificationDate'', JStr (now_iso demo_world))])"
    and "member payer ''name'' = JStr ''Blue Cross Blue Shield''"
    by auto
  then have "\<exists>report. verifyEligibility demo_world record_p2 (coverage_record ''c1'' ''BCBS001'') = Inr report
         \<and> member report ''status'' = JStr ''success''
         \<and> member report ''payerName'' = JStr ''Blue Cross Blue Shield''
         \<and> (\<exists>line1 line2. member report ''benefits'' = JArr [line1, line2])"
    by simp
  then show ?thesis
    using a b c by blast
qed

text \<open>
  A payer identifier that is absent, or a string that is a property name neither of the
  table nor of \<^verbatim>\<open>Object.prototype\<close>, gives the report \<^verbatim>\<open>Payer not recognized\<close>.
\<close>

lemma verifyEligibility_unknown_payer:
  assumes "\<not> nullish coverageData"
    and "payer_id_of (member coverageData ''payor'') = JUndef
         \<or> (\<exists>key. payer_id_of (member coverageData ''payor'') = JStr key
                  \<and> key \<notin> fst ` set mockPayers \<and> key \<notin> fst ` set object_prototype)"
  shows "verifyEligibility w patientData coverageData = Inr payer_not_recognized"
proof -
  have "mockPayers_at (number_text w) (payer_id_of (member coverageData ''payor'')) = Inr JUndef"
    using assms(2)
  proof
    assume "payer_id_of (member coverageData ''payor'') = JUndef"
    then show ?thesis
      by (simp add: mockPayers_at_def mockPayers_def object_prototype_def builtin_def and_then_def)
  next
    assume "\<exists>key. payer_id_of (member coverageData ''payor'') = JStr key
                  \<and> key \<notin> fst ` set mockPayers \<and> key \<notin> fst ` set object_prototype"
    then obtain key where "payer_id_of (member coverageData ''payor'') = JStr key"
      "map_of mockPayers key = None" "map_of object_prototype key = None"
      by (auto simp: map_of_eq_None_iff)
    then show ?thesis by (simp add: mockPayers_at_def and_then_def)
  qed
  then show ?thesis
    using assms(1) by (simp add: verifyEligibility_def and_then_def get_def)
qed

text \<open>
  Claim C6 says that every payer identifier that is no key of the payer table gives the
  report \<^verbatim>\<open>Payer not recognized\<close>. The string \<^verbatim>\<open>constructor\<close> is no key of the table, yet
  \<^verbatim>\<open>this.mockPayers['constructor']\<close> is the function \<^verbatim>\<open>Object\<close>, inherited and truthy, and for
  a coverage record with that payer identifier \<^verbatim>\<open>verifyEligibility\<close> returns a report with
  status \<^verbatim>\<open>success\<close> for the payer \<^verbatim>\<open>Object\<close>.
\<close>

theorem verifyEligibility_inherited_key:
  "map_of mockPayers ''constructor'' = None
   \<and> payer_id_of (member (coverage_record ''c9'' ''constructor'') ''payor'') = JStr ''constructor''
   \<and> verifyEligibility w patientData (coverage_record ''c9'' ''constructor'')
     = Inr (JObj [(''status'', JStr ''success''),
                  (''eligible'', JBool (random w > 0.2)),
                  (''payerName'', JStr ''Object''),
                  (''effectiveDate'', JStr ''2024-01-01''),
                  (''terminationDate'', JStr ''2024-12-31''),
                  (''copay'', JStr ''$25.00''),
                  (''deductible'', JStr ''$1,500.00''),
                  (''deductibleMet'', JStr ''$450.00''),
                  (''benefits'', benefits),
                  (''verificationDate'', JStr (now_iso w))])
   \<and> verifyEligibility w patientData (coverage_record ''c9'' ''constructor'')
       \<noteq> Inr payer_not_recognized"
  by (simp add: verifyEligibility_def and_then_def get_def nullish_def payer_id_of_def opt_def
                opt0_def mockPayers_at_def mockPayers_def object_prototype_def builtin_def
                coverage_record_def payer_not_recognized_def)

section \<open>Gateway Client\<close>

lemma getPatient_not_found:
  assumes "to_string (number_text w) patientId = Inr id_text"
    and "http_get w (FHIR_BASE_URL @ ''/Patient/'' @ id_text) = Rejected error"
    and "response_status error = Some 404"
  shows "getPatient w patientId = Inl (Error (patient_not_found id_text))"
  using assms by (simp add: getPatient_def)

lemma getPatient_other_failure:
  assumes "to_string (number_text w) patientId = Inr id_text"
    and "http_get w (FHIR_BASE_URL @ ''/Patient/'' @ id_text) = Rejected error"
    and "response_status error \<noteq> Some 404"
  shows "getPatient w patientId = Inl (Error ''Failed to fetch patient data'')"
  using assms by (simp add: getPatient_def)

lemma verify_insurance_fetch_failed:
  assumes "destructure req_body ''patientId'' = Inr patientId" and "truthy patientId"
    and "getPatient w patientId = Inl error"
  shows "verify_insurance w req_body = \<lparr>sent = failed 500 (message error), stub_calls = []\<rparr>"
  using assms by (simp add: verify_insurance_def fetch_both_def and_then_def)

lemma demo_missing_id:
  "http_get demo_world (FHIR_BASE_URL @ ''/Patient/'' @ ''missing-id'') = Rejected not_found_error"
  by (simp add: demo_world_def demo_gateway_def FHIR_BASE_URL_def)

lemma demo_p3:
  "http_get demo_world (FHIR_BASE_URL @ ''/Patient/'' @ ''p3'') = Rejected network_error"
  by (simp add: demo_world_def demo_gateway_def FHIR_BASE_URL_def)

lemma demo_p2_patient: "getPatient demo_world (JStr ''p2'') = Inr (JObj [(''id'', JStr ''p2'')])"
  by (simp add: getPatient_def demo_world_def demo_gateway_def FHIR_BASE_URL_def)

lemma demo_p2_info: "extractPatientInfo (JObj [(''id'', JStr ''p2'')]) = Inr record_p2"
  by (simp add: extractPatientInfo_def and_then_def get_def nullish_def opt_def opt0_def
                telecom_find_def or_empty_def record_p2_def)

lemma demo_p2_coverage: "extractCoverageInfo (getCoverage demo_world (JStr ''p2'')) = Inr JNull"
  by (simp add: getCoverage_def demo_world_def demo_gateway_def FHIR_BASE_URL_def
                extractCoverageInfo_def and_then_def get_def nullish_def)

lemma destructure_patientId:
  "destructure (JObj [(''patientId'', v)]) ''patientId'' = Inr v"
  by (simp add: destructure_def nullish_def)

text \<open>
  Claim C1, as the code has it. When the patient fetch for the identifier of a
  \<^verbatim>\<open>POST /api/verify-insurance\<close> is answered with HTTP 404, the response has status 500, not
  404: the \<^verbatim>\<open>catch\<close> of the route sends 500 for whatever was thrown. The body has \<^verbatim>\<open>success\<close>
  false, and its error message is the one of \<^verbatim>\<open>getPatient\<close>, which holds the identifier.
\<close>

theorem verify_insurance_patient_not_found:
  assumes "destructure req_body ''patientId'' = Inr patientId" and "truthy patientId"
    and "to_string (number_text w) patientId = Inr id_text"
    and "http_get w (FHIR_BASE_URL @ ''/Patient/'' @ id_text) = Rejected error"
    and "response_status error = Some 404"
  shows "sent (verify_insurance w req_body) =
           \<lparr>http_status = 500,
              json = JObj [(''success'', JBool False),
                           (''error'', JStr (''Patient with ID '' @ [CHR 0x27] @ id_text @ [CHR 0x27]
                                             @ '' not found. Try searching for patients first.''))]\<rparr>"
  using verify_insurance_fetch_failed[OF assms(1,2) getPatient_not_found[OF assms(3,4,5)]]
  by (simp add: failed_def patient_not_found_def)

theorem verify_insurance_patient_not_found_witness:
  "destructure (JObj [(''patientId'', JStr ''missing-id'')]) ''patientId'' = Inr (JStr ''missing-id'')
   \<and> truthy (JStr ''missing-id'')
   \<and> to_string (number_text demo_world) (JStr ''missing-id'') = Inr ''missing-id''
   \<and> http_get demo_world (FHIR_BASE_URL @ ''/Patient/'' @ ''missing-id'') = Rejected not_found_error
   \<and> response_status not_found_error = Some 404
   \<and> sent (verify_insurance demo_world (JObj [(''patientId'', JStr ''missing-id'')])) =
       \<lparr>http_status = 500,
          json = JObj [(''success'', JBool False),
                       (''error'', JStr (''Patient with ID '' @ [CHR 0x27] @ ''missing-id'' @ [CHR 0x27]
                                         @ '' not found. Try searching for patients first.''))]\<rparr>"
proof -
  have b: "truthy (JStr ''missing-id'')" by simp
  have c: "to_string (number_text demo_world) (JStr ''missing-id'') = Inr ''missing-id''" by simp
  have d: "response_status not_found_error = Some 404" by (simp add: not_found_error_def)
  show ?thesis
    using destructure_patientId b c demo_missing_id d
      verify_insurance_patient_not_found[OF destructure_patientId b c demo_missing_id d]
    by simp
qed

text \<open>The sample gateway answers 404 for \<^verbatim>\<open>missing-id\<close>, and the route does not.\<close>

theorem verify_insurance_not_found_counterexample:
  "http_get demo_world (FHIR_BASE_URL @ ''/Patient/missing-id'') = Rejected not_found_error
   \<and> response_status not_found_error = Some 404
   \<and> http_status (sent (verify_insurance demo_world (JObj [(''patientId'', JStr ''missing-id'')])))
       \<noteq> 404"
  by (simp add: verify_insurance_def fetch_both_def getPatient_def and_then_def failed_def
                destructure_def nullish_def demo_world_def demo_gateway_def not_found_error_def
                FHIR_BASE_URL_def)

text \<open>
  Claim C2, as the code has it. When the patient fetch is rejected otherwise than with HTTP
  404, \<^verbatim>\<open>getPatient\<close> throws an error with the fixed message \<^verbatim>\<open>Failed to fetch patient data\<close>;
  the message of the rejection goes to the log only. \<^verbatim>\<open>POST /api/verify-insurance\<close> answers
  with status 500 and that fixed message, and \<^verbatim>\<open>GET /api/patient/:id\<close> with status 404 and
  that fixed message: its \<^verbatim>\<open>catch\<close> sends 404 for whatever was thrown.
\<close>

theorem patient_fetch_other_failure:
  assumes "to_string (number_text w) patientId = Inr id_text"
    and "http_get w (FHIR_BASE_URL @ ''/Patient/'' @ id_text) = Rejected error"
    and "response_status error \<noteq> Some 404"
  shows "getPatient w patientId = Inl (Error ''Failed to fetch patient data'')
       \<and> (\<forall>req_body. destructure req_body ''patientId'' = Inr patientId \<and> truthy patientId \<longrightarrow>
             sent (verify_insurance w req_body) =
               \<lparr>http_status = 500,
                  json = JObj [(''success'', JBool False),
                               (''error'', JStr ''Failed to fetch patient data'')]\<rparr>)
       \<and> (\<forall>route_id. patientId = JStr route_id \<longrightarrow>
             patient_route w route_id =
               \<lparr>http_status = 404,
                  json = JObj [(''success'', JBool False),
                               (''error'', JStr ''Failed to fetch patient data'')]\<rparr>)"
proof -
  have g: "getPatient w patientId = Inl (Error ''Failed to fetch patient data'')"
    by (rule getPatient_other_failure[OF assms])
  have "sent (verify_insurance w req_body) = failed 500 ''Failed to fetch patient data''"
    if "destructure req_body ''patientId'' = Inr patientId" "truthy patientId" for req_body
    using verify_insurance_fetch_failed[OF that g] by simp
  moreover have "patient_route w route_id = failed 404 ''Failed to fetch patient data''"
    if "patientId = JStr route_id" for route_id
    using g that by (simp add: patient_route_def and_then_def)
  ultimately show ?thesis
    using g by (simp add: failed_def)
qed

theorem patient_fetch_other_failure_witness:
  "to_string (number_text demo_world) (JStr ''p3'') = Inr ''p3''
   \<and> http_get demo_world (FHIR_BASE_URL @ ''/Patient/'' @ ''p3'') = Rejected network_error
   \<and> response_status network_error \<noteq> Some 404
   \<and> destructure (JObj [(''patientId'', JStr ''p3'')]) ''patientId'' = Inr (JStr ''p3'')
   \<and> truthy (JStr ''p3'')
   \<and> getPatient demo_world (JStr ''p3'') = Inl (Error ''Failed to fetch patient data'')
   \<and> sent (verify_insurance demo_world (JObj [(''patientId'', JStr ''p3'')])) =
       \<lparr>http_status = 500,
          json = JObj [(''success'', JBool False), (''error'', JStr ''Failed to fetch patient data'')]\<rparr>
   \<and> patient_route demo_world ''p3'' =
       \<lparr>http_status = 404,
          json = JObj [(''success'', JBool False), (''error'', JStr ''Failed to fetch patient data'')]\<rparr>"
proof -
  have a: "to_string (number_text demo_world) (JStr ''p3'') = Inr ''p3''" by simp
  have b: "response_status network_error \<noteq> Some 404" by (simp add: network_error_def)
  have c: "destructure (JObj [(''patientId'', JStr ''p3'')]) ''patientId'' = Inr (JStr ''p3'')"
    by (rule destructure_patientId)
  show ?thesis
    using a b c demo_p3 patient_fetch_other_failure[OF a demo_p3 b] by simp
qed

text \<open>
  The request for \<^verbatim>\<open>p3\<close> fails with no response at all. \<^verbatim>\<open>GET /api/patient/p3\<close> answers 404
  all the same, and the error message of \<^verbatim>\<open>POST /api/verify-insurance\<close> is not the message
  of the failure.
\<close>

theorem patient_route_other_failure_counterexample:
  "http_get demo_world (FHIR_BASE_URL @ ''/Patient/p3'') = Rejected network_error
   \<and> response_status network_error \<noteq> Some 404
   \<and> http_status (patient_route demo_world ''p3'') = 404
   \<and> http_status (sent (verify_insurance demo_world (JObj [(''patientId'', JStr ''p3'')]))) = 500
   \<and> member (json (sent (verify_insurance demo_world (JObj [(''patientId'', JStr ''p3'')])))) ''error''
       \<noteq> JStr (err_message network_error)"
  by (simp add: verify_insurance_def fetch_both_def getPatient_def and_then_def failed_def
                patient_route_def destructure_def nullish_def demo_world_def demo_gateway_def
                network_error_def FHIR_BASE_URL_def)

text \<open>
  Claim C5. When the coverage fetch is rejected, \<^verbatim>\<open>getCoverage\<close> returns a result with an
  empty entry list and throws nothing, so the coverage extracted from it is \<^verbatim>\<open>null\<close>, and
  \<^verbatim>\<open>GET /api/coverage/:patientId\<close> answers 200 with coverage \<^verbatim>\<open>null\<close>. That route never answers
  with status 404, whatever the remote server does.
\<close>

theorem coverage_fetch_soft_fail:
  "(to_string (number_text w) patientId = Inr id_text
    \<and> http_get w (FHIR_BASE_URL @ ''/Coverage?patient='' @ id_text) = Rejected error \<longrightarrow>
      getCoverage w patientId = JObj [(''entry'', JArr [])]
      \<and> extractCoverageInfo (getCoverage w patientId) = Inr JNull
      \<and> (\<forall>route_id. patientId = JStr route_id \<longrightarrow>
            coverage_route w route_id =
              \<lparr>http_status = 200, json = JObj [(''success'', JBool True), (''coverage'', JNull)]\<rparr>))
   \<and> http_status (coverage_route w any_id) \<noteq> 404"
proof -
  have "http_status (coverage_route w any_id) \<noteq> 404"
    by (cases "extractCoverageInfo (getCoverage w (JStr any_id))")
       (simp_all add: coverage_route_def ok_def failed_def)
  moreover have "extractCoverageInfo (JObj [(''entry'', JArr [])]) = Inr JNull"
    by (simp add: extractCoverageInfo_def and_then_def get_def nullish_def)
  ultimately show ?thesis
    by (auto simp: getCoverage_def coverage_route_def ok_def)
qed

theorem coverage_fetch_soft_fail_witness:
  "to_string (number_text demo_world) (JStr ''p2'') = Inr ''p2''
   \<and> http_get demo_world (FHIR_BASE_URL @ ''/Coverage?patient='' @ ''p2'') = Rejected not_found_error
   \<and> getCoverage demo_world (JStr ''p2'') = JObj [(''entry'', JArr [])]
   \<and> extractCoverageInfo (getCoverage demo_world (JStr ''p2'')) = Inr JNull
   \<and> coverage_route demo_world ''p2'' =
        \<lparr>http_status = 200, json = JObj [(''success'', JBool True), (''coverage'', JNull)]\<rparr>
   \<and> http_status (coverage_route demo_world ''p2'') \<noteq> 404"
proof -
  have a: "to_string (number_text demo_world) (JStr ''p2'') = Inr ''p2''" by simp
  have b: "http_get demo_world (FHIR_BASE_URL @ ''/Coverage?patient='' @ ''p2'')
             = Rejected not_found_error"
    by (simp add: demo_world_def demo_gateway_def FHIR_BASE_URL_def)
  note c = coverage_fetch_soft_fail[of demo_world "JStr ''p2''" "''p2''" not_found_error "''p2''"]
  have "getCoverage demo_world (JStr ''p2'') = JObj [(''entry'', JArr [])]"
    and "extractCoverageInfo (getCoverage demo_world (JStr ''p2'')) = Inr JNull"
    and "coverage_route demo_world ''p2'' =
           \<lparr>http_status = 200, json = JObj [(''success'', JBool True), (''coverage'', JNull)]\<rparr>"
    and "http_status (coverage_route demo_world ''p2'') \<noteq> 404"
    using a b c by blast+
  then show ?thesis
    using a b by blast
qed

section \<open>Verification Orchestrator\<close>

lemma fetch_both_no_coverage:
  assumes "getPatient w patientId = Inr patient"
    and "extractPatientInfo patient = Inr patientInfo"
    and "extractCoverageInfo (getCoverage w patientId) = Inr JNull"
  shows "fetch_both w patientId = Inr (patientInfo, JNull)"
  using assms by (simp add: fetch_both_def and_then_def)

text \<open>
  Claim C3. In a single verification whose patient fetch succeeds, giving the patient record
  \<open>patientInfo\<close>, and whose normalized coverage is \<^verbatim>\<open>null\<close>, the response holds that patient
  record and the verification \<^verbatim>\<open>{status: "no_coverage", message: "No insurance coverage
  found for patient"}\<close>, and \<^verbatim>\<open>verifyEligibility\<close> is not called.
\<close>

theorem verify_insurance_no_coverage:
  assumes "destructure req_body ''patientId'' = Inr patientId" and "truthy patientId"
    and "getPatient w patientId = Inr patient"
    and "extractPatientInfo patient = Inr patientInfo"
    and "extractCoverageInfo (getCoverage w patientId) = Inr JNull"
  shows "sent (verify_insurance w req_body) =
           \<lparr>http_status = 200,
              json = JObj [(''success'', JBool True),
                           (''verification'',
                              JObj [(''status'', JStr ''no_coverage''),
                                    (''message'', JStr ''No insurance coverage found for patient'')]),
                           (''patient'', patientInfo)]\<rparr>
         \<and> stub_calls (verify_insurance w req_body) = []"
  using assms(1,2) fetch_both_no_coverage[OF assms(3,4,5)]
  by (simp add: verify_insurance_def ok_def)

theorem verify_insurance_no_coverage_witness:
  "destructure (JObj [(''patientId'', JStr ''p2'')]) ''patientId'' = Inr (JStr ''p2'')
   \<and> truthy (JStr ''p2'')
   \<and> getPatient demo_world (JStr ''p2'') = Inr (JObj [(''id'', JStr ''p2'')])
   \<and> extractPatientInfo (JObj [(''id'', JStr ''p2'')]) = Inr record_p2
   \<and> extractCoverageInfo (getCoverage demo_world (JStr ''p2'')) = Inr JNull
   \<and> sent (verify_insurance demo_world (JObj [(''patientId'', JStr ''p2'')])) =
        \<lparr>http_status = 200,
           json = JObj [(''success'', JBool True),
                        (''verification'',
                           JObj [(''status'', JStr ''no_coverage''),
                                 (''message'', JStr ''No insurance coverage found for patient'')]),
                        (''patient'', record_p2)]\<rparr>
   \<and> stub_calls (verify_insurance demo_world (JObj [(''patientId'', JStr ''p2'')])) = []"
proof -
  have b: "truthy (JStr ''p2'')" by simp
  show ?thesis
    using destructure_patientId b demo_p2_patient demo_p2_info demo_p2_coverage
      verify_insurance_no_coverage[OF destructure_patientId b demo_p2_patient demo_p2_info
        demo_p2_coverage]
    by simp
qed

text \<open>
  Claim C10. For a batch item whose patient fetch succeeds, giving the patient record
  \<open>patientInfo\<close>, and whose normalized coverage is \<^verbatim>\<open>null\<close>, the entry is a success entry with
  \<^verbatim>\<open>coverage\<close> \<^verbatim>\<open>null\<close> and the verification \<^verbatim>\<open>{status: "no_coverage"}\<close>, which has no message. The
  single verification of the same identifier has the message in its verification and no
  property \<^verbatim>\<open>coverage\<close> in its body.
\<close>

theorem batch_item_no_coverage:
  assumes "getPatient w patientId = Inr patient"
    and "extractPatientInfo patient = Inr patientInfo"
    and "extractCoverageInfo (getCoverage w patientId) = Inr JNull"
  shows "fst (batch_item w patientId) =
           JObj [(''patientId'', patientId),
                 (''patient'', patientInfo),
                 (''coverage'', JNull),
                 (''verification'', JObj [(''status'', JStr ''no_coverage'')])]
         \<and> is_success_entry (fst (batch_item w patientId))
         \<and> (\<forall>req_body. destructure req_body ''patientId'' = Inr patientId \<and> truthy patientId \<longrightarrow>
               json (sent (verify_insurance w req_body)) =
                 JObj [(''success'', JBool True),
                       (''verification'',
                          JObj [(''status'', JStr ''no_coverage''),
                                (''message'', JStr ''No insurance coverage found for patient'')]),
                       (''patient'', patientInfo)])"
  using fetch_both_no_coverage[OF assms]
  by (simp add: batch_item_def batch_success_def verify_insurance_def ok_def is_success_entry_def)

theorem batch_item_no_coverage_witness:
  "getPatient demo_world (JStr ''p2'') = Inr (JObj [(''id'', JStr ''p2'')])
   \<and> extractPatientInfo (JObj [(''id'', JStr ''p2'')]) = Inr record_p2
   \<and> extractCoverageInfo (getCoverage demo_world (JStr ''p2'')) = Inr JNull
   \<and> destructure (JObj [(''patientId'', JStr ''p2'')]) ''patientId'' = Inr (JStr ''p2'')
   \<and> truthy (JStr ''p2'')
   \<and> fst (batch_item demo_world (JStr ''p2'')) =
        JObj [(''patientId'', JStr ''p2''),
              (''patient'', record_p2),
              (''coverage'', JNull),
              (''verification'', JObj [(''status'', JStr ''no_coverage'')])]
   \<and> json (sent (verify_insurance demo_world (JObj [(''patientId'', JStr ''p2'')]))) =
        JObj [(''success'', JBool True),
              (''verification'',
                 JObj [(''status'', JStr ''no_coverage''),
                       (''message'', JStr ''No insurance coverage found for patient'')]),
              (''patient'', record_p2)]"
proof -
  have b: "truthy (JStr ''p2'')" by simp
  show ?thesis
    using destructure_patientId b demo_p2_patient demo_p2_info demo_p2_coverage
      batch_item_no_coverage[OF demo_p2_patient demo_p2_info demo_p2_coverage]
    by simp
qed

lemma batch_item_entry:
  "member (fst (batch_item w p)) ''patientId'' = p
   \<and> (is_success_entry (fst (batch_item w p)) \<noteq> is_failure_entry (fst (batch_item w p)))"
  by (auto simp: batch_item_def batch_failure_def batch_success_def is_success_entry_def
                 is_failure_entry_def
           split: sum.splits prod.splits)

text \<open>
  The loop pushes one entry for each identifier, behind the entries it was started with:
  the entry at offset \<open>k\<close> is the one of the \<open>k\<close>-th identifier.
\<close>

lemma batch_loop_results:
  "\<exists>new. fst (batch_loop ws i ps acc) = fst acc @ new \<and> length new = length ps
         \<and> (\<forall>k<length ps. new ! k = fst (batch_item (ws (i + k)) (ps ! k)))"
proof (induction ps arbitrary: i acc)
  case Nil
  then show ?case by simp
next
  case (Cons p ps)
  obtain results calls where acc: "acc = (results, calls)"
    by (cases acc)
  obtain entry made where item: "batch_item (ws i) p = (entry, made)"
    by (cases "batch_item (ws i) p")
  from Cons.IH[of "Suc i" "(results @ [entry], calls @ made)"]
  obtain new where new:
    "fst (batch_loop ws (Suc i) ps (results @ [entry], calls @ made)) = (results @ [entry]) @ new"
    "length new = length ps"
    "\<forall>k<length ps. new ! k = fst (batch_item (ws (Suc i + k)) (ps ! k))"
    by auto
  have "\<forall>k<length (p # ps). (entry # new) ! k = fst (batch_item (ws (i + k)) ((p # ps) ! k))"
  proof (intro allI impI)
    fix k assume "k < length (p # ps)"
    then show "(entry # new) ! k = fst (batch_item (ws (i + k)) ((p # ps) ! k))"
      using new(3) item by (cases k) simp_all
  qed
  then show ?case
    using new(1,2) acc item by (intro exI[of _ "entry # new"]) simp
qed

lemma verify_batch_results:
  assumes "destructure req_body ''patientIds'' = Inr (JArr ids)" and "ids \<noteq> []"
  shows "\<exists>results.
           sent (verify_batch ws req_body) =
             \<lparr>http_status = 200,
                json = JObj [(''success'', JBool True), (''results'', JArr results)]\<rparr>
         \<and> length results = length ids
         \<and> (\<forall>i<length ids. results ! i = fst (batch_item (ws i) (ids ! i)))"
proof -
  obtain p ps where ids: "ids = p # ps"
    using assms(2) by (cases ids) auto
  obtain new where new:
    "fst (batch_loop ws 0 ids ([], [])) = new" "length new = length ids"
    "\<forall>k<length ids. new ! k = fst (batch_item (ws k) (ids ! k))"
    using batch_loop_results[of ws 0 ids "([], [])"] by auto
  have "sent (verify_batch ws req_body) =
          \<lparr>http_status = 200, json = JObj [(''success'', JBool True), (''results'', JArr new)]\<rparr>"
    using assms(1) new(1) unfolding ids
    by (cases "batch_loop ws 0 (p # ps) ([], [])")
       (simp add: verify_batch_def ok_def del: batch_loop.simps)
  then show ?thesis
    using new(2,3) by (intro exI[of _ new]) simp
qed

text \<open>
  Claim C4. For a non-empty list of identifiers the batch route answers 200 with a result
  list of the same length. The entry at index \<open>i\<close> is the one the turn of the loop for the
  \<open>i\<close>-th identifier makes, from that identifier and the environment of that turn alone; it
  carries the \<open>i\<close>-th identifier, and it is either a success entry or a failure entry, never
  both. So neither an entry nor its place depends on the other identifiers or on their
  failures: any other batch with the same identifier at index \<open>i\<close> has the same entry there.
\<close>

theorem verify_batch_entries:
  assumes "destructure req_body ''patientIds'' = Inr (JArr ids)" and "ids \<noteq> []"
  shows "\<exists>results.
           sent (verify_batch ws req_body) =
             \<lparr>http_status = 200,
                json = JObj [(''success'', JBool True), (''results'', JArr results)]\<rparr>
         \<and> length results = length ids
         \<and> (\<forall>i<length ids.
              results ! i = fst (batch_item (ws i) (ids ! i))
            \<and> member (results ! i) ''patientId'' = ids ! i
            \<and> (is_success_entry (results ! i) \<noteq> is_failure_entry (results ! i)))
         \<and> (\<forall>other_body others other_results i.
              destructure other_body ''patientIds'' = Inr (JArr others)
            \<and> sent (verify_batch ws other_body) =
                 \<lparr>http_status = 200,
                    json = JObj [(''success'', JBool True), (''results'', JArr other_results)]\<rparr>
            \<and> i < length ids \<and> i < length others \<and> others ! i = ids ! i
            \<longrightarrow> other_results ! i = results ! i)"
proof -
  from verify_batch_results[OF assms, of ws]
  obtain results where r:
    "sent (verify_batch ws req_body) =
       \<lparr>http_status = 200, json = JObj [(''success'', JBool True), (''results'', JArr results)]\<rparr>"
    "length results = length ids"
    "\<forall>i<length ids. results ! i = fst (batch_item (ws i) (ids ! i))"
    by blast
  have entries: "\<forall>i<length ids.
              results ! i = fst (batch_item (ws i) (ids ! i))
            \<and> member (results ! i) ''patientId'' = ids ! i
            \<and> (is_success_entry (results ! i) \<noteq> is_failure_entry (results ! i))"
    using r(3) batch_item_entry by simp
  have "other_results ! i = results ! i"
    if other: "destructure other_body ''patientIds'' = Inr (JArr others)"
      and sent: "sent (verify_batch ws other_body) =
                 \<lparr>http_status = 200,
                    json = JObj [(''success'', JBool True), (''results'', JArr other_results)]\<rparr>"
      and i: "i < length ids" "i < length others" "others ! i = ids ! i"
    for other_body others other_results i
  proof -
    have "others \<noteq> []"
      using i(2) by auto
    from verify_batch_results[OF other this, of ws]
    obtain rs where rs:
      "sent (verify_batch ws other_body) =
         \<lparr>http_status = 200, json = JObj [(''success'', JBool True), (''results'', JArr rs)]\<rparr>"
      "\<forall>k<length others. rs ! k = fst (batch_item (ws k) (others ! k))"
      by blast
    have "other_results = rs"
      using sent rs(1) by simp
    then have "other_results ! i = fst (batch_item (ws i) (others ! i))"
      using rs(2) i(2) by simp
    also have "\<dots> = results ! i"
      using r(3) i(1,3) by simp
    finally show ?thesis .
  qed
  then show ?thesis
    using r(1,2) entries by (intro exI[of _ results]) blast
qed

lemma demo_item0:
  "fst (batch_item (demo_worlds 0) (JStr ''missing-id'')) =
     JObj [(''patientId'', JStr ''missing-id''),
           (''error'', JStr (''Patient with ID '' @ [CHR 0x27] @ ''missing-id'' @ [CHR 0x27]
                             @ '' not found. Try searching for patients first.''))]"
  by (simp add: batch_item_def fetch_both_def getPatient_def and_then_def batch_failure_def
                patient_not_found_def demo_worlds_def demo_world_def demo_gateway_def
                not_found_error_def FHIR_BASE_URL_def)

lemma demo_item_p1: "is_success_entry (fst (batch_item (demo_worlds 0) (JStr ''p1'')))"
  by (simp add: batch_item_def fetch_both_def getPatient_def getCoverage_def and_then_def
                demo_worlds_def demo_world_def demo_gateway_def FHIR_BASE_URL_def
                extractPatientInfo_def extractCoverageInfo_def get_def get0_def nullish_def
                patient_p1_def bundle_p1_def coverage_of_def telecom_find_def
                verifyEligibility_def mockPayers_at_def mockPayers_def payer_id_of_def
                opt_def opt0_def batch_success_def is_success_entry_def)

text \<open>
  A batch of three against the sample gateway: the first identifier is unknown there, the
  second has no coverage, the third has one. In a second batch the first identifier is a
  known one; the entry of the second identifier is the same in both.
\<close>

theorem verify_batch_entries_witness:
  "destructure (JObj [(''patientIds'', JArr [JStr ''missing-id'', JStr ''p2'', JStr ''p1''])])
     ''patientIds'' = Inr (JArr [JStr ''missing-id'', JStr ''p2'', JStr ''p1''])
   \<and> [JStr ''missing-id'', JStr ''p2'', JStr ''p1''] \<noteq> []
   \<and> destructure (JObj [(''patientIds'', JArr [JStr ''p1'', JStr ''p2''])])
       ''patientIds'' = Inr (JArr [JStr ''p1'', JStr ''p2''])
   \<and> (\<exists>results other_results.
         sent (verify_batch demo_worlds
                 (JObj [(''patientIds'', JArr [JStr ''missing-id'', JStr ''p2'', JStr ''p1''])])) =
           \<lparr>http_status = 200,
              json = JObj [(''success'', JBool True), (''results'', JArr results)]\<rparr>
       \<and> length results = 3
       \<and> results ! 0 =
           JObj [(''patientId'', JStr ''missing-id''),
                 (''error'', JStr (''Patient with ID '' @ [CHR 0x27] @ ''missing-id'' @ [CHR 0x27]
                                   @ '' not found. Try searching for patients first.''))]
       \<and> is_failure_entry (results ! 0) \<and> \<not> is_success_entry (results ! 0)
       \<and> member (results ! 1) ''patientId'' = JStr ''p2''
       \<and> results ! 1 = fst (batch_item (demo_worlds 1) (JStr ''p2''))
       \<and> member (results ! 2) ''patientId'' = JStr ''p1''
       \<and> results ! 2 = fst (batch_item (demo_worlds 2) (JStr ''p1''))
       \<and> sent (verify_batch demo_worlds (JObj [(''patientIds'', JArr [JStr ''p1'', JStr ''p2''])])) =
           \<lparr>http_status = 200,
              json = JObj [(''success'', JBool True), (''results'', JArr other_results)]\<rparr>
       \<and> is_success_entry (other_results ! 0)
       \<and> other_results ! 1 = results ! 1)"
proof -
  let ?ids = "[JStr ''missing-id'', JStr ''p2'', JStr ''p1'']"
  let ?others = "[JStr ''p1'', JStr ''p2'']"
  have a: "destructure (JObj [(''patientIds'', JArr ?ids)]) ''patientIds'' = Inr (JArr ?ids)"
    by (simp add: destructure_def nullish_def)
  have b: "?ids \<noteq> []" by simp
  have c: "destructure (JObj [(''patientIds'', JArr ?others)]) ''patientIds'' = Inr (JArr ?others)"
    by (simp add: destructure_def nullish_def)
  have d: "?others \<noteq> []" by simp
  from verify_batch_entries[OF a b, of demo_worlds]
  obtain results where r:
    "sent (verify_batch demo_worlds (JObj [(''patientIds'', JArr ?ids)])) =
       \<lparr>http_status = 200, json = JObj [(''success'', JBool True), (''results'', JArr results)]\<rparr>"
    "length results = length ?ids"
    "\<forall>i<length ?ids. results ! i = fst (batch_item (demo_worlds i) (?ids ! i))
        \<and> member (results ! i) ''patientId'' = ?ids ! i
        \<and> (is_success_entry (results ! i) \<noteq> is_failure_entry (results ! i))"
    "\<forall>other_body others other_results i.
        destructure other_body ''patientIds'' = Inr (JArr others)
      \<and> sent (verify_batch demo_worlds other_body) =
           \<lparr>http_status = 200,
              json = JObj [(''success'', JBool True), (''results'', JArr other_results)]\<rparr>
      \<and> i < length ?ids \<and> i < length others \<and> others ! i = ?ids ! i
      \<longrightarrow> other_results ! i = results ! i"
    by blast
  from verify_batch_results[OF c d, of demo_worlds]
  obtain other_results where o:
    "sent (verify_batch demo_worlds (JObj [(''patientIds'', JArr ?others)])) =
       \<lparr>http_status = 200,
          json = JObj [(''success'', JBool True), (''results'', JArr other_results)]\<rparr>"
    "\<forall>i<length ?others. other_results ! i = fst (batch_item (demo_worlds i) (?others ! i))"
    by blast
  have len: "length results = 3"
    using r(2) by simp
  have i0: "(0::nat) < length ?ids" and i1: "(1::nat) < length ?ids" and i2: "(2::nat) < length ?ids"
    and j0: "(0::nat) < length ?others" and j1: "(1::nat) < length ?others"
    by simp_all
  have n0: "?ids ! 0 = JStr ''missing-id''" and n1: "?ids ! 1 = JStr ''p2''"
    and n2: "?ids ! 2 = JStr ''p1''" and k0: "?others ! 0 = JStr ''p1''"
    and same: "?others ! 1 = ?ids ! 1"
    by simp_all
  have r0: "results ! 0 = fst (batch_item (demo_worlds 0) (JStr ''missing-id''))"
    using r(3)[rule_format, OF i0] unfolding n0 by blast
  have r1: "results ! 1 = fst (batch_item (demo_worlds 1) (JStr ''p2''))"
    and m1: "member (results ! 1) ''patientId'' = JStr ''p2''"
    using r(3)[rule_format, OF i1] unfolding n1 by blast+
  have r2: "results ! 2 = fst (batch_item (demo_worlds 2) (JStr ''p1''))"
    and m2: "member (results ! 2) ''patientId'' = JStr ''p1''"
    using r(3)[rule_format, OF i2] unfolding n2 by blast+
  have e0: "results ! 0 =
           JObj [(''patientId'', JStr ''missing-id''),
                 (''error'', JStr (''Patient with ID '' @ [CHR 0x27] @ ''missing-id'' @ [CHR 0x27]
                                   @ '' not found. Try searching for patients first.''))]"
    unfolding r0 by (rule demo_item0)
  have f0: "is_failure_entry (results ! 0)" and s0: "\<not> is_success_entry (results ! 0)"
    unfolding e0 by (simp_all add: is_failure_entry_def is_success_entry_def)
  have o0: "is_success_entry (other_results ! 0)"
    using o(2)[rule_format, OF j0] demo_item_p1 unfolding k0 by simp
  have o1: "other_results ! 1 = results ! 1"
    using r(4)[rule_format, of "JObj [(''patientIds'', JArr ?others)]" ?others other_results 1]
      c o(1) i1 j1 same
    by blast
  show ?thesis
    using a b c r(1) len e0 f0 s0 m1 r1 m2 r2 o(1) o0 o1 by blast
qed

end
